theory Spec2Isabelle
  imports Main "HOL-Library.Word"
begin

section \<open>Data model\<close>

text \<open>
  The three commands of \<^verbatim>\<open>src/command\<close> (\<^verbatim>\<open>kv export\<close>, \<^verbatim>\<open>kv delete\<close>,
  \<^verbatim>\<open>snapshot restore\<close>) are glue between the parsed command line, the API client and
  the user interface. Go's \<^verbatim>\<open>uint64\<close> is a 64-bit word, a Go string and a byte slice
  are lists of 8-bit characters, and an \<^verbatim>\<open>error\<close> is represented by the text its
  \<^verbatim>\<open>Error()\<close> method returns (what \<^verbatim>\<open>%s\<close> prints).
\<close>

type_synonym uint64 = "64 word"

text \<open>The fields of \<^verbatim>\<open>api.Config\<close> the commands read or write.\<close>

record Config =
  conf_Address :: string
  conf_Token :: string
  conf_Datacenter :: string

record QueryOptions =
  qo_Datacenter :: string
  qo_AllowStale :: bool

record WriteOptions =
  wo_Datacenter :: string

text \<open>The fields of \<^verbatim>\<open>api.KVPair\<close> the commands read or write.\<close>

record KVPair =
  kv_Key :: string
  kv_ModifyIndex :: uint64
  kv_Flags :: uint64
  kv_Value :: string

record kvExportEntry =
  ee_Key :: string
  ee_Flags :: uint64
  ee_Value :: string

text \<open>
  Everything outside the commands is a parameter: the default configuration
  (\<^verbatim>\<open>api.DefaultConfig()\<close>, which reads the process environment), the outcome of
  constructing a client, the outcome of each store call made through a client built from
  a given configuration, the outcome of opening a file, and the string encoder of
  \<^verbatim>\<open>encoding/json\<close>. A failing call yields the text of its error: \<open>Some err\<close> for
  a call that returns only an error, \<open>Inl err\<close> for one that also returns a value.
\<close>

record env =
  DefaultConfig :: Config
  NewClient :: "Config \<Rightarrow> string option"
  KV_List :: "Config \<Rightarrow> string \<Rightarrow> QueryOptions \<Rightarrow> string + KVPair list"
  KV_DeleteTree :: "Config \<Rightarrow> string \<Rightarrow> WriteOptions \<Rightarrow> string option"
  KV_DeleteCAS :: "Config \<Rightarrow> KVPair \<Rightarrow> WriteOptions \<Rightarrow> string + bool"
  KV_Delete :: "Config \<Rightarrow> string \<Rightarrow> WriteOptions \<Rightarrow> string option"
  os_Open :: "string \<Rightarrow> string option"
  Snapshot_Restore :: "Config \<Rightarrow> string \<Rightarrow> string option"
  json_string :: "string \<Rightarrow> string"

text \<open>
  What a run does, in order: the messages it hands to the user interface and the calls it
  makes on its collaborators. A store call carries the configuration of the client it is
  made through. \<open>Ui_Output_Help\<close> is \<^verbatim>\<open>c.Ui.Output(c.Help())\<close>, the usage
  function the delete and restore commands install in their flag set.
\<close>

datatype event =
    Ui_Error string
  | Ui_Info string
  | Ui_Output_Help
  | Call_NewClient Config
  | Call_List Config string QueryOptions
  | Call_DeleteTree Config string WriteOptions
  | Call_DeleteCAS Config KVPair WriteOptions
  | Call_Delete Config string WriteOptions
  | Call_Open string
  | Call_Close string
  | Call_Restore Config string

fun is_store_call :: "event \<Rightarrow> bool" where
  "is_store_call (Call_List _ _ _) = True"
| "is_store_call (Call_DeleteTree _ _ _) = True"
| "is_store_call (Call_DeleteCAS _ _ _) = True"
| "is_store_call (Call_Delete _ _ _) = True"
| "is_store_call (Call_Restore _ _) = True"
| "is_store_call _ = False"

fun is_client_construction :: "event \<Rightarrow> bool" where
  "is_client_construction (Call_NewClient _) = True"
| "is_client_construction _ = False"

fun is_file_open :: "event \<Rightarrow> bool" where
  "is_file_open (Call_Open _) = True"
| "is_file_open _ = False"

text \<open>The key a key-value store call is made with.\<close>

fun store_key :: "event \<Rightarrow> string option" where
  "store_key (Call_List _ k _) = Some k"
| "store_key (Call_DeleteTree _ k _) = Some k"
| "store_key (Call_DeleteCAS _ p _) = Some (kv_Key p)"
| "store_key (Call_Delete _ k _) = Some k"
| "store_key _ = None"

text \<open>The client configuration a call is made with or through.\<close>

fun event_conf :: "event \<Rightarrow> Config option" where
  "event_conf (Call_NewClient c) = Some c"
| "event_conf (Call_List c _ _) = Some c"
| "event_conf (Call_DeleteTree c _ _) = Some c"
| "event_conf (Call_DeleteCAS c _ _) = Some c"
| "event_conf (Call_Delete c _ _) = Some c"
| "event_conf (Call_Restore c _) = Some c"
| "event_conf _ = None"

section \<open>Library functions the commands call\<close>

text \<open>The value of a flag after parsing: the declared default unless the flag was given.\<close>

definition flag_value :: "'a \<Rightarrow> 'a option \<Rightarrow> 'a" where
  "flag_value dflt given = (case given of None \<Rightarrow> dflt | Some v \<Rightarrow> v)"

text \<open>\<^verbatim>\<open>%d\<close> of a non-negative integer.\<close>

definition digit_char :: "nat \<Rightarrow> char" where
  "digit_char d = ''0123456789'' ! (d mod 10)"

function decimal :: "nat \<Rightarrow> string" where
  "decimal n = (if n < 10 then [digit_char n] else decimal (n div 10) @ [digit_char (n mod 10)])"
  by pat_completeness auto
termination
  by (relation "measure id") auto

declare decimal.simps [simp del]

text \<open>
  \<^verbatim>\<open>base64.StdEncoding.EncodeToString\<close>: the alphabet of RFC 4648 with \<^verbatim>\<open>=\<close>
  padding; three bytes give four characters.
\<close>

definition encodeStd :: string where
  "encodeStd = ''ABCDEFGHIJKLMNOPQRSTUVWXYZabcdefghijklmnopqrstuvwxyz0123456789+/''"

definition b64_char :: "nat \<Rightarrow> char" where
  "b64_char i = encodeStd ! (i mod 64)"

fun base64_encode :: "nat list \<Rightarrow> string" where
  "base64_encode [] = []"
| "base64_encode [a] =
     [b64_char (a div 4), b64_char ((a mod 4) * 16), CHR ''='', CHR ''='']"
| "base64_encode [a, b] =
     [b64_char (a div 4), b64_char ((a mod 4) * 16 + b div 16),
      b64_char ((b mod 16) * 4), CHR ''='']"
| "base64_encode (a # b # c # rest) =
     [b64_char (a div 4), b64_char ((a mod 4) * 16 + b div 16),
      b64_char ((b mod 16) * 4 + c div 64), b64_char (c mod 64)] @ base64_encode rest"

definition EncodeToString :: "string \<Rightarrow> string" where
  "EncodeToString bytes = base64_encode (map of_char bytes)"

section \<open>Key normalisation\<close>

text \<open>
  Both \<^verbatim>\<open>KVExportCommand.Run\<close> and \<^verbatim>\<open>KVDeleteCommand.Run\<close> contain
  \<^verbatim>\<open>if len(key) > 0 && key[0] == '/' { key = key[1:] }\<close>.
\<close>

definition normalizeKey :: "string \<Rightarrow> string" where
  "normalizeKey key = (if length key > 0 \<and> hd key = CHR ''/'' then tl key else key)"

section \<open>The delete command\<close>

text \<open>
  The command line after \<^verbatim>\<open>cmdFlags.Parse\<close>: each flag as given (or absent), the
  value of the address flag declared by \<^verbatim>\<open>HTTPAddrFlag\<close>, and the positional
  arguments \<^verbatim>\<open>cmdFlags.Args()\<close>.
\<close>

record delete_cmdline =
  dl_datacenter :: "string option"
  dl_token :: "string option"
  dl_cas :: "bool option"
  dl_modify_index :: "uint64 option"
  dl_recurse :: "bool option"
  dl_http_addr :: string
  dl_args :: "string list"

definition too_many_arguments :: "string list \<Rightarrow> string" where
  "too_many_arguments args =
     ''Too many arguments (expected 1, got '' @ decimal (length args) @ '')''"

definition connect_error :: "string \<Rightarrow> string" where
  "connect_error err = ''Error connecting to Consul agent: '' @ err"

text \<open>Lines 237 to 241 of the delete command: the client configuration.\<close>

definition KVDelete_conf :: "env \<Rightarrow> delete_cmdline \<Rightarrow> Config" where
  "KVDelete_conf env cl =
     (let conf = DefaultConfig env;
          conf = conf\<lparr>conf_Address := dl_http_addr cl\<rparr>
      in if conf_Token conf = '''' then conf\<lparr>conf_Token := flag_value '''' (dl_token cl)\<rparr>
         else conf)"

text \<open>The final \<^verbatim>\<open>switch\<close>: exactly one store operation.\<close>

definition KVDelete_dispatch ::
  "env \<Rightarrow> Config \<Rightarrow> bool \<Rightarrow> bool \<Rightarrow> uint64 \<Rightarrow> string \<Rightarrow> WriteOptions \<Rightarrow> event list \<times> int" where
  "KVDelete_dispatch env client recurse cas modifyIndex key wo =
     (if recurse then
        (case KV_DeleteTree env client key wo of
           Some err \<Rightarrow>
             ([Call_DeleteTree client key wo,
               Ui_Error (''Error! Did not delete prefix '' @ key @ '': '' @ err)], 1)
         | None \<Rightarrow>
             ([Call_DeleteTree client key wo,
               Ui_Info (''Success! Deleted keys with prefix: '' @ key)], 0))
      else if cas then
        (let pair = \<lparr>kv_Key = key, kv_ModifyIndex = modifyIndex, kv_Flags = 0, kv_Value = []\<rparr>
         in case KV_DeleteCAS env client pair wo of
              Inl err \<Rightarrow>
                ([Call_DeleteCAS client pair wo,
                  Ui_Error (''Error! Did not delete key '' @ key @ '': '' @ err)], 1)
            | Inr success \<Rightarrow>
                if \<not> success then
                  ([Call_DeleteCAS client pair wo,
                    Ui_Error (''Error! Did not delete key '' @ key @ '': CAS failed'')], 1)
                else
                  ([Call_DeleteCAS client pair wo,
                    Ui_Info (''Success! Deleted key: '' @ key)], 0))
      else
        (case KV_Delete env client key wo of
           Some err \<Rightarrow>
             ([Call_Delete client key wo,
               Ui_Error (''Error deleting key '' @ key @ '': '' @ err)], 1)
         | None \<Rightarrow>
             ([Call_Delete client key wo,
               Ui_Info (''Success! Deleted key: '' @ key)], 0)))"

text \<open>
  The command from the normalisation of the key on. The message of the third rule is
  printed without a \<^verbatim>\<open>return\<close>, so it is carried into every later outcome.
\<close>

definition KVDelete_body :: "env \<Rightarrow> delete_cmdline \<Rightarrow> string \<Rightarrow> event list \<times> int" where
  "KVDelete_body env cl key0 =
     (let datacenter = flag_value '''' (dl_datacenter cl);
          cas = flag_value False (dl_cas cl);
          modifyIndex = flag_value 0 (dl_modify_index cl);
          recurse = flag_value False (dl_recurse cl);
          key = normalizeKey key0
      in if key = '''' \<and> \<not> recurse then
           ([Ui_Error ''Error! Missing KEY argument''], 1)
         else if cas \<and> modifyIndex = 0 then
           ([Ui_Error ''Must specify -modify-index with -cas!''], 1)
         else
           (let ui = (if modifyIndex \<noteq> 0 \<and> \<not> cas
                      then [Ui_Error ''Cannot specify -modify-index without -cas!'']
                      else [])
            in if recurse \<and> cas then
                 (ui @ [Ui_Error ''Cannot specify both -cas and -recurse!''], 1)
               else
                 (let conf = KVDelete_conf env cl
                  in case NewClient env conf of
                       Some err \<Rightarrow>
                         (ui @ [Call_NewClient conf, Ui_Error (connect_error err)], 1)
                     | None \<Rightarrow>
                         (let wo = \<lparr>wo_Datacenter = datacenter\<rparr>;
                              r = KVDelete_dispatch env conf recurse cas modifyIndex key wo
                          in (ui @ [Call_NewClient conf] @ fst r, snd r)))))"

text \<open>
  \<^verbatim>\<open>KVDeleteCommand.Run\<close>. \<open>None\<close> is a command line the flag parser rejected:
  the parser then calls the usage function of the flag set and \<^verbatim>\<open>Parse\<close> returns
  an error. What the flag library writes by itself is not part of the trace.
\<close>

definition KVDelete_Run :: "env \<Rightarrow> delete_cmdline option \<Rightarrow> event list \<times> int" where
  "KVDelete_Run env parsed =
     (case parsed of
        None \<Rightarrow> ([Ui_Output_Help], 1)
      | Some cl \<Rightarrow>
          (case dl_args cl of
             [] \<Rightarrow> KVDelete_body env cl ''''
           | [a] \<Rightarrow> KVDelete_body env cl a
           | _ \<Rightarrow> ([Ui_Error (too_many_arguments (dl_args cl))], 1)))"

section \<open>The export command\<close>

record export_cmdline =
  ex_datacenter :: "string option"
  ex_token :: "string option"
  ex_stale :: "bool option"
  ex_http_addr :: string
  ex_args :: "string list"

definition toExportEntry :: "KVPair \<Rightarrow> kvExportEntry" where
  "toExportEntry pair =
     \<lparr>ee_Key = kv_Key pair, ee_Flags = kv_Flags pair, ee_Value = EncodeToString (kv_Value pair)\<rparr>"

text \<open>The loop that fills \<^verbatim>\<open>exported\<close>, one entry per pair, by index.\<close>

primrec exportEntries :: "KVPair list \<Rightarrow> kvExportEntry list" where
  "exportEntries [] = []"
| "exportEntries (pair # pairs) = toExportEntry pair # exportEntries pairs"

text \<open>
  \<^verbatim>\<open>json.MarshalIndent(exported, "", "\t")\<close> on a slice of \<^verbatim>\<open>kvExportEntry\<close>:
  the field names are those of the struct tags, every level is indented by one tab, an
  empty slice is \<^verbatim>\<open>[]\<close>, and no value of this type makes the encoder fail. How a
  string is quoted and escaped is left to \<open>json_string\<close>.
\<close>

definition newline_indent :: "nat \<Rightarrow> string" where
  "newline_indent depth = CHR 0x0A # replicate depth (CHR 0x09)"

definition json_field :: "string \<Rightarrow> string \<Rightarrow> string" where
  "json_field name text = [CHR 0x22] @ name @ [CHR 0x22] @ '': '' @ text"

definition json_entry :: "env \<Rightarrow> kvExportEntry \<Rightarrow> string" where
  "json_entry env e =
     ''{'' @ newline_indent 2 @ json_field ''key'' (json_string env (ee_Key e)) @
     '','' @ newline_indent 2 @ json_field ''flags'' (decimal (unat (ee_Flags e))) @
     '','' @ newline_indent 2 @ json_field ''value'' (json_string env (ee_Value e)) @
     newline_indent 1 @ ''}''"

fun json_elements :: "string list \<Rightarrow> string" where
  "json_elements [] = []"
| "json_elements [x] = x"
| "json_elements (x # y # ys) = x @ '','' @ newline_indent 1 @ json_elements (y # ys)"

definition json_MarshalIndent :: "env \<Rightarrow> kvExportEntry list \<Rightarrow> string + string" where
  "json_MarshalIndent env exported =
     Inr (if exported = [] then ''[]''
          else ''['' @ newline_indent 1 @ json_elements (map (json_entry env) exported) @
               newline_indent 0 @ '']'')"

text \<open>Lines 77 to 81 of the export command: the client configuration.\<close>

definition KVExport_conf :: "env \<Rightarrow> export_cmdline \<Rightarrow> Config" where
  "KVExport_conf env cl =
     (let conf = DefaultConfig env;
          conf = conf\<lparr>conf_Address := ex_http_addr cl\<rparr>;
          token = flag_value '''' (ex_token cl)
      in if token \<noteq> '''' then conf\<lparr>conf_Token := token\<rparr> else conf)"

definition KVExport_body :: "env \<Rightarrow> export_cmdline \<Rightarrow> string \<Rightarrow> event list \<times> int" where
  "KVExport_body env cl key0 =
     (let datacenter = flag_value '''' (ex_datacenter cl);
          stale = flag_value False (ex_stale cl);
          key = normalizeKey key0;
          conf = KVExport_conf env cl
      in case NewClient env conf of
           Some err \<Rightarrow> ([Call_NewClient conf, Ui_Error (connect_error err)], 1)
         | None \<Rightarrow>
             (let qo = \<lparr>qo_Datacenter = datacenter, qo_AllowStale = stale\<rparr>
              in case KV_List env conf key qo of
                   Inl err \<Rightarrow>
                     ([Call_NewClient conf, Call_List conf key qo,
                       Ui_Error (''Error querying Consul agent: '' @ err)], 1)
                 | Inr pairs \<Rightarrow>
                     (case json_MarshalIndent env (exportEntries pairs) of
                        Inl err \<Rightarrow>
                          ([Call_NewClient conf, Call_List conf key qo,
                            Ui_Error (''Error exporting KV data: '' @ err)], 1)
                      | Inr marshaled \<Rightarrow>
                          ([Call_NewClient conf, Call_List conf key qo,
                            Ui_Info marshaled], 0))))"

text \<open>
  \<^verbatim>\<open>KVExportCommand.Run\<close>. The export command installs no usage function, so a
  rejected command line leaves nothing in the trace.
\<close>

definition KVExport_Run :: "env \<Rightarrow> export_cmdline option \<Rightarrow> event list \<times> int" where
  "KVExport_Run env parsed =
     (case parsed of
        None \<Rightarrow> ([], 1)
      | Some cl \<Rightarrow>
          (case ex_args cl of
             [] \<Rightarrow> KVExport_body env cl ''''
           | [a] \<Rightarrow> KVExport_body env cl a
           | _ \<Rightarrow> ([Ui_Error (too_many_arguments (ex_args cl))], 1)))"

section \<open>The snapshot restore command\<close>

record restore_cmdline =
  rs_datacenter :: "string option"
  rs_token :: "string option"
  rs_http_addr :: string
  rs_args :: "string list"

definition SnapshotRestore_conf :: "env \<Rightarrow> restore_cmdline \<Rightarrow> Config" where
  "SnapshotRestore_conf env cl =
     (let conf = DefaultConfig env;
          conf = conf\<lparr>conf_Datacenter := flag_value '''' (rs_datacenter cl)\<rparr>;
          conf = conf\<lparr>conf_Address := rs_http_addr cl\<rparr>;
          token = flag_value '''' (rs_token cl)
      in if token \<noteq> '''' then conf\<lparr>conf_Token := token\<rparr> else conf)"

text \<open>
  The deferred \<^verbatim>\<open>f.Close()\<close> runs when the function returns, on both paths that
  follow a successful \<^verbatim>\<open>os.Open\<close>.
\<close>

definition SnapshotRestore_body :: "env \<Rightarrow> restore_cmdline \<Rightarrow> string \<Rightarrow> event list \<times> int" where
  "SnapshotRestore_body env cl file =
     (let conf = SnapshotRestore_conf env cl
      in case NewClient env conf of
           Some err \<Rightarrow> ([Call_NewClient conf, Ui_Error (connect_error err)], 1)
         | None \<Rightarrow>
             (case os_Open env file of
                Some err \<Rightarrow>
                  ([Call_NewClient conf, Call_Open file,
                    Ui_Error (''Error opening snapshot file: '' @ err)], 1)
              | None \<Rightarrow>
                  (case Snapshot_Restore env conf file of
                     Some err \<Rightarrow>
                       ([Call_NewClient conf, Call_Open file, Call_Restore conf file,
                         Ui_Error (''Error restoring snapshot: '' @ err), Call_Close file], 1)
                   | None \<Rightarrow>
                       ([Call_NewClient conf, Call_Open file, Call_Restore conf file,
                         Ui_Info ''Restored snapshot'', Call_Close file], 0))))"

definition SnapshotRestore_Run :: "env \<Rightarrow> restore_cmdline option \<Rightarrow> event list \<times> int" where
  "SnapshotRestore_Run env parsed =
     (case parsed of
        None \<Rightarrow> ([Ui_Output_Help], 1)
      | Some cl \<Rightarrow>
          (case rs_args cl of
             [] \<Rightarrow> ([Ui_Error ''Missing FILE argument''], 1)
           | [file] \<Rightarrow> SnapshotRestore_body env cl file
           | _ \<Rightarrow> ([Ui_Error (too_many_arguments (rs_args cl))], 1)))"

section \<open>Example environments and command lines\<close>

text \<open>
  An agent that accepts every call; its store holds the two pairs
  \<^verbatim>\<open>{a, 0, "x"}\<close> and \<^verbatim>\<open>{a/b, 0, "y"}\<close>. Strings are quoted without escapes,
  which is what the JSON encoder does on letters, digits and base64 text.
\<close>

definition example_pairs :: "KVPair list" where
  "example_pairs =
     [\<lparr>kv_Key = ''a'', kv_ModifyIndex = 7, kv_Flags = 0, kv_Value = ''x''\<rparr>,
      \<lparr>kv_Key = ''a/b'', kv_ModifyIndex = 8, kv_Flags = 0, kv_Value = ''y''\<rparr>]"

definition env_ok :: env where
  "env_ok =
     \<lparr>DefaultConfig = \<lparr>conf_Address = '''', conf_Token = '''', conf_Datacenter = ''''\<rparr>,
      NewClient = (\<lambda>conf. None),
      KV_List = (\<lambda>conf key qo. Inr example_pairs),
      KV_DeleteTree = (\<lambda>conf key wo. None),
      KV_DeleteCAS = (\<lambda>conf pair wo. Inr True),
      KV_Delete = (\<lambda>conf key wo. None),
      os_Open = (\<lambda>file. None),
      Snapshot_Restore = (\<lambda>conf file. None),
      json_string = (\<lambda>s. [CHR 0x22] @ s @ [CHR 0x22])\<rparr>"

text \<open>The same agent when the client cannot be constructed.\<close>

definition env_no_client :: env where
  "env_no_client = env_ok\<lparr>NewClient := (\<lambda>conf. Some ''invalid address'')\<rparr>"

text \<open>The compare-and-swap delete fails: the agent answers with status 500.\<close>

definition env_cas_error :: env where
  "env_cas_error =
     env_ok\<lparr>KV_DeleteCAS :=
       (\<lambda>conf pair wo. Inl ''Unexpected response code: 500 (CAS failed)'')\<rparr>"

text \<open>The compare-and-swap delete succeeds as a call and reports a version mismatch.\<close>

definition env_cas_mismatch :: env where
  "env_cas_mismatch = env_ok\<lparr>KV_DeleteCAS := (\<lambda>conf pair wo. Inr False)\<rparr>"

text \<open>The snapshot file cannot be opened.\<close>

definition env_no_file :: env where
  "env_no_file = env_ok\<lparr>os_Open := (\<lambda>file. Some ''no such file or directory'')\<rparr>"

text \<open>The default configuration already carries a token, as from the process environment.\<close>

definition env_with_token :: env where
  "env_with_token =
     env_ok\<lparr>DefaultConfig :=
       \<lparr>conf_Address = '''', conf_Token = ''from-env'', conf_Datacenter = ''''\<rparr>\<rparr>"

definition delete_cl :: "string list \<Rightarrow> delete_cmdline" where
  "delete_cl args =
     \<lparr>dl_datacenter = None, dl_token = None, dl_cas = None, dl_modify_index = None,
      dl_recurse = None, dl_http_addr = ''127.0.0.1:8500'', dl_args = args\<rparr>"

definition export_cl :: "string list \<Rightarrow> export_cmdline" where
  "export_cl args =
     \<lparr>ex_datacenter = None, ex_token = None, ex_stale = None,
      ex_http_addr = ''127.0.0.1:8500'', ex_args = args\<rparr>"

definition restore_cl :: "string list \<Rightarrow> restore_cmdline" where
  "restore_cl args =
     \<lparr>rs_datacenter = None, rs_token = None, rs_http_addr = ''127.0.0.1:8500'',
      rs_args = args\<rparr>"

section \<open>Unfolding the commands\<close>

lemmas example_defs =
  env_ok_def env_no_client_def env_cas_error_def env_cas_mismatch_def env_no_file_def
  env_with_token_def delete_cl_def export_cl_def restore_cl_def example_pairs_def

lemma normalizeKey_Nil: "normalizeKey [] = []"
  by (simp add: normalizeKey_def)

lemma normalizeKey_slash: "normalizeKey (CHR ''/'' # rest) = rest"
  by (simp add: normalizeKey_def)

lemma KVDelete_Run_Nil:
  "dl_args cl = [] \<Longrightarrow> KVDelete_Run env (Some cl) = KVDelete_body env cl []"
  by (simp add: KVDelete_Run_def)

lemma KVDelete_Run_single:
  "dl_args cl = [a] \<Longrightarrow> KVDelete_Run env (Some cl) = KVDelete_body env cl a"
  by (simp add: KVDelete_Run_def)

lemma KVDelete_Run_many:
  "length (dl_args cl) > 1 \<Longrightarrow>
     KVDelete_Run env (Some cl) = ([Ui_Error (too_many_arguments (dl_args cl))], 1)"
  by (cases "dl_args cl"; cases "tl (dl_args cl)") (auto simp: KVDelete_Run_def)

lemma KVDelete_Run_le1:
  "length (dl_args cl) \<le> 1 \<Longrightarrow>
     KVDelete_Run env (Some cl) =
       KVDelete_body env cl (case dl_args cl of [] \<Rightarrow> [] | a # _ \<Rightarrow> a)"
  by (cases "dl_args cl"; cases "tl (dl_args cl)") (auto simp: KVDelete_Run_def)

section \<open>The validation rules of the delete command\<close>

text \<open>
  C3: a delete whose normalised key is empty (no positional argument, or one that
  normalises to the empty string) and that does not set \<^verbatim>\<open>-recurse\<close> prints
  \<^verbatim>\<open>Error! Missing KEY argument\<close> and exits 1, whatever the other flags and the
  environment are; the error is the whole trace, so no client is constructed and no store
  call is made.
\<close>

theorem KVDelete_missing_key_exits:
  assumes "dl_args cl = [] \<or> (\<exists>a. dl_args cl = [a] \<and> normalizeKey a = [])"
    and "\<not> flag_value False (dl_recurse cl)"
  shows "KVDelete_Run env (Some cl) = ([Ui_Error ''Error! Missing KEY argument''], 1) \<and>
         list_all (\<lambda>e. \<not> is_client_construction e \<and> \<not> is_store_call e)
           (fst (KVDelete_Run env (Some cl)))"
proof -
  from assms(1) obtain a where a: "KVDelete_Run env (Some cl) = KVDelete_body env cl a"
    and k: "normalizeKey a = []"
    by (auto simp: KVDelete_Run_Nil KVDelete_Run_single normalizeKey_Nil)
  have "KVDelete_body env cl a = ([Ui_Error ''Error! Missing KEY argument''], 1)"
    using k assms(2) by (simp add: KVDelete_body_def Let_def)
  with a show ?thesis by simp
qed

text \<open>
  The argument \<^verbatim>\<open>/\<close> normalises to the empty key; \<^verbatim>\<open>-cas\<close> and
  \<^verbatim>\<open>-modify-index=3\<close> make no difference.
\<close>

theorem KVDelete_missing_key_exits_witness:
  "(dl_args ((delete_cl [''/''])\<lparr>dl_cas := Some True, dl_modify_index := Some 3\<rparr>) = [] \<or>
    (\<exists>a. dl_args ((delete_cl [''/''])\<lparr>dl_cas := Some True, dl_modify_index := Some 3\<rparr>) = [a] \<and>
         normalizeKey a = [])) \<and>
   \<not> flag_value False
       (dl_recurse ((delete_cl [''/''])\<lparr>dl_cas := Some True, dl_modify_index := Some 3\<rparr>)) \<and>
   KVDelete_Run env_ok
       (Some ((delete_cl [''/''])\<lparr>dl_cas := Some True, dl_modify_index := Some 3\<rparr>)) =
     ([Ui_Error ''Error! Missing KEY argument''], 1)"
proof -
  let ?cl = "(delete_cl [''/''])\<lparr>dl_cas := Some True, dl_modify_index := Some 3\<rparr>"
  have h1: "dl_args ?cl = [] \<or> (\<exists>a. dl_args ?cl = [a] \<and> normalizeKey a = [])"
    by (simp add: delete_cl_def normalizeKey_def)
  have h2: "\<not> flag_value False (dl_recurse ?cl)"
    by (simp add: delete_cl_def flag_value_def)
  from KVDelete_missing_key_exits [OF h1 h2, of env_ok] h1 h2 show ?thesis
    by blast
qed

text \<open>
  C4: a delete with \<^verbatim>\<open>-cas\<close> set and a \<^verbatim>\<open>-modify-index\<close> of zero (given as
  zero, or absent, the declared default being zero) exits 1 with a trace that is a single
  error message, so before any client construction or store call. When the invocation
  gets as far as this rule (at most one argument, and a key or \<^verbatim>\<open>-recurse\<close>) the
  message is \<^verbatim>\<open>Must specify -modify-index with -cas!\<close>.
\<close>

theorem KVDelete_cas_needs_modify_index:
  assumes "dl_cas cl = Some True"
    and "dl_modify_index cl = None \<or> dl_modify_index cl = Some 0"
  shows "snd (KVDelete_Run env (Some cl)) = 1 \<and>
         (\<exists>msg. fst (KVDelete_Run env (Some cl)) = [Ui_Error msg]) \<and>
         list_all (\<lambda>e. \<not> is_client_construction e \<and> \<not> is_store_call e)
           (fst (KVDelete_Run env (Some cl))) \<and>
         (length (dl_args cl) \<le> 1 \<and>
          (normalizeKey (case dl_args cl of [] \<Rightarrow> [] | a # _ \<Rightarrow> a) \<noteq> [] \<or>
           flag_value False (dl_recurse cl)) \<longrightarrow>
          KVDelete_Run env (Some cl) =
            ([Ui_Error ''Must specify -modify-index with -cas!''], 1))"
proof (cases "length (dl_args cl) \<le> 1")
  case True
  have mi: "flag_value 0 (dl_modify_index cl) = 0"
    using assms(2) by (auto simp: flag_value_def)
  have cas: "flag_value False (dl_cas cl)"
    using assms(1) by (simp add: flag_value_def)
  show ?thesis
    using mi cas by (simp add: KVDelete_Run_le1 [OF True] KVDelete_body_def Let_def)
next
  case False
  then show ?thesis by (simp add: KVDelete_Run_many)
qed

text \<open>\<^verbatim>\<open>consul kv delete -cas foo\<close>, with \<^verbatim>\<open>-modify-index\<close> absent.\<close>

theorem KVDelete_cas_needs_modify_index_witness:
  "dl_cas ((delete_cl [''foo''])\<lparr>dl_cas := Some True\<rparr>) = Some True \<and>
   dl_modify_index ((delete_cl [''foo''])\<lparr>dl_cas := Some True\<rparr>) = None \<and>
   KVDelete_Run env_ok (Some ((delete_cl [''foo''])\<lparr>dl_cas := Some True\<rparr>)) =
     ([Ui_Error ''Must specify -modify-index with -cas!''], 1)"
proof -
  let ?cl = "(delete_cl [''foo''])\<lparr>dl_cas := Some True\<rparr>"
  have h1: "dl_cas ?cl = Some True"
    by (simp add: delete_cl_def)
  have h2: "dl_modify_index ?cl = None"
    by (simp add: delete_cl_def)
  have h3: "length (dl_args ?cl) \<le> 1 \<and>
      (normalizeKey (case dl_args ?cl of [] \<Rightarrow> [] | a # _ \<Rightarrow> a) \<noteq> [] \<or>
       flag_value False (dl_recurse ?cl))"
    by (simp add: delete_cl_def normalizeKey_def)
  from KVDelete_cas_needs_modify_index [OF h1 disjI1 [OF h2], of env_ok] h1 h2 h3
  show ?thesis by blast
qed

text \<open>
  C5: a delete with both \<^verbatim>\<open>-recurse\<close> and \<^verbatim>\<open>-cas\<close> set exits 1 with a trace
  that is a single error message, whatever the key and the \<^verbatim>\<open>-modify-index\<close> are, so
  without a store call. When the invocation gets as far as the fourth rule (at most one
  argument, a nonzero \<^verbatim>\<open>-modify-index\<close>) the message is
  \<^verbatim>\<open>Cannot specify both -cas and -recurse!\<close>.
\<close>

theorem KVDelete_recurse_and_cas_rejected:
  assumes "dl_recurse cl = Some True" and "dl_cas cl = Some True"
  shows "snd (KVDelete_Run env (Some cl)) = 1 \<and>
         (\<exists>msg. fst (KVDelete_Run env (Some cl)) = [Ui_Error msg]) \<and>
         list_all (\<lambda>e. \<not> is_client_construction e \<and> \<not> is_store_call e)
           (fst (KVDelete_Run env (Some cl))) \<and>
         (length (dl_args cl) \<le> 1 \<and> flag_value 0 (dl_modify_index cl) \<noteq> 0 \<longrightarrow>
          KVDelete_Run env (Some cl) =
            ([Ui_Error ''Cannot specify both -cas and -recurse!''], 1))"
proof (cases "length (dl_args cl) \<le> 1")
  case True
  have f: "flag_value False (dl_recurse cl)" "flag_value False (dl_cas cl)"
    using assms by (simp_all add: flag_value_def)
  show ?thesis
    using f by (simp add: KVDelete_Run_le1 [OF True] KVDelete_body_def Let_def)
next
  case False
  then show ?thesis by (simp add: KVDelete_Run_many)
qed

text \<open>\<^verbatim>\<open>consul kv delete -cas -recurse -modify-index=4 foo\<close>.\<close>

theorem KVDelete_recurse_and_cas_rejected_witness:
  "dl_recurse ((delete_cl [''foo''])\<lparr>dl_cas := Some True, dl_recurse := Some True,
      dl_modify_index := Some 4\<rparr>) = Some True \<and>
   dl_cas ((delete_cl [''foo''])\<lparr>dl_cas := Some True, dl_recurse := Some True,
      dl_modify_index := Some 4\<rparr>) = Some True \<and>
   KVDelete_Run env_ok (Some ((delete_cl [''foo''])\<lparr>dl_cas := Some True,
      dl_recurse := Some True, dl_modify_index := Some 4\<rparr>)) =
     ([Ui_Error ''Cannot specify both -cas and -recurse!''], 1)"
proof -
  let ?cl = "(delete_cl [''foo''])\<lparr>dl_cas := Some True, dl_recurse := Some True,
      dl_modify_index := Some 4\<rparr>"
  have h1: "dl_recurse ?cl = Some True" and h2: "dl_cas ?cl = Some True"
    by (simp_all add: delete_cl_def)
  have h3: "length (dl_args ?cl) \<le> 1 \<and> flag_value 0 (dl_modify_index ?cl) \<noteq> 0"
    by (simp add: delete_cl_def flag_value_def)
  from KVDelete_recurse_and_cas_rejected [OF h1 h2, of env_ok] h1 h2 h3
  show ?thesis by blast
qed

lemma KVDelete_dispatch_plain:
  "KVDelete_dispatch env conf False False mi key wo =
     ([Call_Delete conf key wo,
       (case KV_Delete env conf key wo of
          Some err \<Rightarrow> Ui_Error (''Error deleting key '' @ key @ '': '' @ err)
        | None \<Rightarrow> Ui_Info (''Success! Deleted key: '' @ key))],
      (case KV_Delete env conf key wo of Some err \<Rightarrow> 1 | None \<Rightarrow> 0))"
  by (simp add: KVDelete_dispatch_def split: option.splits)

lemma KVDelete_dispatch_recurse:
  "KVDelete_dispatch env conf True cas mi key wo =
     ([Call_DeleteTree conf key wo,
       (case KV_DeleteTree env conf key wo of
          Some err \<Rightarrow> Ui_Error (''Error! Did not delete prefix '' @ key @ '': '' @ err)
        | None \<Rightarrow> Ui_Info (''Success! Deleted keys with prefix: '' @ key))],
      (case KV_DeleteTree env conf key wo of Some err \<Rightarrow> 1 | None \<Rightarrow> 0))"
  by (simp add: KVDelete_dispatch_def split: option.splits)


text \<open>
  C1, as amended: a delete whose \<^verbatim>\<open>-modify-index\<close> is nonzero while \<^verbatim>\<open>-cas\<close>
  is not set, and that passes the earlier rules (at most one positional argument, and a
  non-empty normalised key or \<^verbatim>\<open>-recurse\<close>), prints
  \<^verbatim>\<open>Cannot specify -modify-index without -cas!\<close> and does not stop there: it goes on
  to construct the client and, when that succeeds, dispatches one store operation, a
  recursive delete if \<^verbatim>\<open>-recurse\<close> is set and a plain delete otherwise, and returns
  that operation's exit code (0 when the call succeeds, 1 when it fails). When the client
  cannot be constructed it exits 1 without a store call.
\<close>

theorem KVDelete_modify_index_without_cas_continues:
  assumes "flag_value 0 (dl_modify_index cl) \<noteq> 0"
    and "\<not> flag_value False (dl_cas cl)"
    and "length (dl_args cl) \<le> 1"
    and "key = normalizeKey (case dl_args cl of [] \<Rightarrow> [] | a # _ \<Rightarrow> a)"
    and "key \<noteq> [] \<or> flag_value False (dl_recurse cl)"
    and "conf = KVDelete_conf env cl"
    and "wo = \<lparr>wo_Datacenter = flag_value [] (dl_datacenter cl)\<rparr>"
  shows "KVDelete_Run env (Some cl) =
     (case NewClient env conf of
        Some err \<Rightarrow>
          ([Ui_Error ''Cannot specify -modify-index without -cas!'',
            Call_NewClient conf, Ui_Error (connect_error err)], 1)
      | None \<Rightarrow>
          if flag_value False (dl_recurse cl) then
            ([Ui_Error ''Cannot specify -modify-index without -cas!'',
              Call_NewClient conf, Call_DeleteTree conf key wo,
              (case KV_DeleteTree env conf key wo of
                 Some err \<Rightarrow> Ui_Error (''Error! Did not delete prefix '' @ key @ '': '' @ err)
               | None \<Rightarrow> Ui_Info (''Success! Deleted keys with prefix: '' @ key))],
             (case KV_DeleteTree env conf key wo of Some err \<Rightarrow> 1 | None \<Rightarrow> 0))
          else
            ([Ui_Error ''Cannot specify -modify-index without -cas!'',
              Call_NewClient conf, Call_Delete conf key wo,
              (case KV_Delete env conf key wo of
                 Some err \<Rightarrow> Ui_Error (''Error deleting key '' @ key @ '': '' @ err)
               | None \<Rightarrow> Ui_Info (''Success! Deleted key: '' @ key))],
             (case KV_Delete env conf key wo of Some err \<Rightarrow> 1 | None \<Rightarrow> 0)))"
proof (cases "flag_value False (dl_recurse cl)")
  case True
  then show ?thesis
    using assms
    by (simp add: KVDelete_Run_le1 KVDelete_body_def Let_def KVDelete_dispatch_recurse
          split: option.splits)
next
  case False
  then show ?thesis
    using assms
    by (simp add: KVDelete_Run_le1 KVDelete_body_def Let_def KVDelete_dispatch_plain
          split: option.splits)
qed

text \<open>
  C1 as stated, for every invocation with a nonzero \<^verbatim>\<open>-modify-index\<close> and no
  \<^verbatim>\<open>-cas\<close>, fails: with no key the run stops at the first rule, with two arguments at
  the argument count, both without printing the message of the third rule, and when the
  client cannot be constructed the message is printed but no store operation follows.
\<close>

theorem KVDelete_modify_index_without_cas_counterexample:
  "KVDelete_Run env_ok (Some ((delete_cl [])\<lparr>dl_modify_index := Some 5\<rparr>)) =
     ([Ui_Error ''Error! Missing KEY argument''], 1) \<and>
   KVDelete_Run env_ok (Some ((delete_cl [''foo'', ''bar''])\<lparr>dl_modify_index := Some 5\<rparr>)) =
     ([Ui_Error ''Too many arguments (expected 1, got 2)''], 1) \<and>
   KVDelete_Run env_no_client (Some ((delete_cl [''foo''])\<lparr>dl_modify_index := Some 5\<rparr>)) =
     ([Ui_Error ''Cannot specify -modify-index without -cas!'',
       Call_NewClient \<lparr>conf_Address = ''127.0.0.1:8500'', conf_Token = [], conf_Datacenter = []\<rparr>,
       Ui_Error ''Error connecting to Consul agent: invalid address''], 1)"
  by (simp add: example_defs KVDelete_Run_def KVDelete_body_def KVDelete_conf_def
        flag_value_def normalizeKey_def connect_error_def too_many_arguments_def Let_def
        decimal.simps digit_char_def)

text \<open>
  \<^verbatim>\<open>consul kv delete -modify-index=5 foo\<close> against an agent that accepts the delete:
  the error message, then the plain delete, then exit code 0.
\<close>

theorem KVDelete_modify_index_without_cas_continues_witness:
  "flag_value 0 (dl_modify_index ((delete_cl [''foo''])\<lparr>dl_modify_index := Some 5\<rparr>)) \<noteq> 0 \<and>
   \<not> flag_value False (dl_cas ((delete_cl [''foo''])\<lparr>dl_modify_index := Some 5\<rparr>)) \<and>
   length (dl_args ((delete_cl [''foo''])\<lparr>dl_modify_index := Some 5\<rparr>)) \<le> 1 \<and>
   KVDelete_Run env_ok (Some ((delete_cl [''foo''])\<lparr>dl_modify_index := Some 5\<rparr>)) =
     ([Ui_Error ''Cannot specify -modify-index without -cas!'',
       Call_NewClient \<lparr>conf_Address = ''127.0.0.1:8500'', conf_Token = [], conf_Datacenter = []\<rparr>,
       Call_Delete \<lparr>conf_Address = ''127.0.0.1:8500'', conf_Token = [], conf_Datacenter = []\<rparr>
         ''foo'' \<lparr>wo_Datacenter = []\<rparr>,
       Ui_Info ''Success! Deleted key: foo''], 0)"
proof -
  let ?cl = "(delete_cl [''foo''])\<lparr>dl_modify_index := Some 5\<rparr>"
  have h1: "flag_value 0 (dl_modify_index ?cl) \<noteq> 0"
    and h2: "\<not> flag_value False (dl_cas ?cl)"
    and h3: "length (dl_args ?cl) \<le> 1"
    by (simp_all add: delete_cl_def flag_value_def)
  have h4: "''foo'' = normalizeKey (case dl_args ?cl of [] \<Rightarrow> [] | a # _ \<Rightarrow> a)"
    by (simp add: delete_cl_def normalizeKey_def)
  have h5: "''foo'' \<noteq> [] \<or> flag_value False (dl_recurse ?cl)"
    by simp
  have h6: "\<lparr>conf_Address = ''127.0.0.1:8500'', conf_Token = [], conf_Datacenter = []\<rparr> =
      KVDelete_conf env_ok ?cl"
    by (simp add: KVDelete_conf_def env_ok_def delete_cl_def flag_value_def)
  have h7: "\<lparr>wo_Datacenter = []\<rparr> = \<lparr>wo_Datacenter = flag_value [] (dl_datacenter ?cl)\<rparr>"
    by (simp add: delete_cl_def flag_value_def)
  have e: "NewClient env_ok = (\<lambda>c. None)" "KV_Delete env_ok = (\<lambda>c k w. None)"
    by (simp_all add: env_ok_def)
  from KVDelete_modify_index_without_cas_continues [OF h1 h2 h3 h4 h5 h6 h7] h1 h2 h3
  show ?thesis
    by (simp add: e flag_value_def delete_cl_def)
qed

lemma KVExport_Run_Nil:
  "ex_args cl = [] \<Longrightarrow> KVExport_Run env (Some cl) = KVExport_body env cl []"
  by (simp add: KVExport_Run_def)

lemma KVExport_Run_single:
  "ex_args cl = [a] \<Longrightarrow> KVExport_Run env (Some cl) = KVExport_body env cl a"
  by (simp add: KVExport_Run_def)


lemma KVExport_body_store_key:
  "e \<in> set (fst (KVExport_body env cl a)) \<Longrightarrow> is_store_call e \<Longrightarrow>
     store_key e = Some (normalizeKey a)"
  by (auto simp: KVExport_body_def Let_def json_MarshalIndent_def
      split: option.splits sum.splits)

lemma KVDelete_dispatch_store_key:
  "e \<in> set (fst (KVDelete_dispatch env conf recurse cas mi key wo)) \<Longrightarrow> is_store_call e \<Longrightarrow>
     store_key e = Some key"
  by (auto simp: KVDelete_dispatch_def Let_def split: option.splits sum.splits if_splits)

lemma KVDelete_body_store_key:
  "e \<in> set (fst (KVDelete_body env cl a)) \<Longrightarrow> is_store_call e \<Longrightarrow>
     store_key e = Some (normalizeKey a)"
  by (auto simp: KVDelete_body_def Let_def
      split: option.splits if_splits dest: KVDelete_dispatch_store_key)

lemma normalizeKey_twice:
  "normalizeKey (normalizeKey s) = normalizeKey s \<longleftrightarrow> take 2 s \<noteq> ''//''"
proof (cases s)
  case Nil
  then show ?thesis by (simp add: normalizeKey_def)
next
  case (Cons c t)
  then show ?thesis
    by (cases t) (auto simp: normalizeKey_def)
qed

text \<open>
  C2, as amended: for an argument with a leading \<^verbatim>\<open>/\<close>, both the export and the delete
  command strip that one leading \<^verbatim>\<open>/\<close> before the key is used in any store call.
  Stripping removes exactly one character, so stripping twice equals stripping once
  exactly for the strings that do not begin with two \<^verbatim>\<open>/\<close> characters.
\<close>

theorem normalizeKey_strips_one_slash:
  "normalizeKey (CHR ''/'' # rest) = rest \<and>
   (normalizeKey (normalizeKey s) = normalizeKey s \<longleftrightarrow> take 2 s \<noteq> ''//'') \<and>
   (ex_args ecl = [CHR ''/'' # rest] \<longrightarrow>
      (\<forall>e\<in>set (fst (KVExport_Run env (Some ecl))). is_store_call e \<longrightarrow> store_key e = Some rest)) \<and>
   (dl_args dcl = [CHR ''/'' # rest] \<longrightarrow>
      (\<forall>e\<in>set (fst (KVDelete_Run env (Some dcl))). is_store_call e \<longrightarrow> store_key e = Some rest))"
proof (intro conjI impI ballI)
  show "normalizeKey (CHR ''/'' # rest) = rest"
    by (rule normalizeKey_slash)
  show "normalizeKey (normalizeKey s) = normalizeKey s \<longleftrightarrow> take 2 s \<noteq> ''//''"
    by (rule normalizeKey_twice)
next
  fix e
  assume "ex_args ecl = [CHR ''/'' # rest]"
    and "e \<in> set (fst (KVExport_Run env (Some ecl)))" and "is_store_call e"
  then show "store_key e = Some rest"
    using KVExport_body_store_key [of e env ecl "CHR ''/'' # rest"]
    by (simp add: KVExport_Run_single normalizeKey_slash)
next
  fix e
  assume "dl_args dcl = [CHR ''/'' # rest]"
    and "e \<in> set (fst (KVDelete_Run env (Some dcl)))" and "is_store_call e"
  then show "store_key e = Some rest"
    using KVDelete_body_store_key [of e env dcl "CHR ''/'' # rest"]
    by (simp add: KVDelete_Run_single normalizeKey_slash)
qed

text \<open>
  C2 as stated, with stripping idempotent on every string, fails on \<^verbatim>\<open>//a\<close>: one
  stripping leaves \<^verbatim>\<open>/a\<close>, a second one leaves \<^verbatim>\<open>a\<close>.
\<close>

theorem normalizeKey_idempotent_counterexample:
  "normalizeKey ''//a'' = ''/a'' \<and> normalizeKey (normalizeKey ''//a'') = ''a'' \<and>
   normalizeKey (normalizeKey ''//a'') \<noteq> normalizeKey ''//a''"
  by (simp add: normalizeKey_def)

text \<open>
  \<^verbatim>\<open>consul kv export /foo\<close> and \<^verbatim>\<open>consul kv delete /foo\<close> both call the store
  with the key \<^verbatim>\<open>foo\<close>.
\<close>

theorem normalizeKey_strips_one_slash_witness:
  "normalizeKey ''/foo'' = ''foo'' \<and>
   normalizeKey (normalizeKey ''/foo'') = normalizeKey ''/foo'' \<and>
   ex_args (export_cl [''/foo'']) = [''/foo''] \<and>
   (\<exists>e\<in>set (fst (KVExport_Run env_ok (Some (export_cl [''/foo''])))).
      is_store_call e \<and> store_key e = Some ''foo'') \<and>
   dl_args (delete_cl [''/foo'']) = [''/foo''] \<and>
   (\<exists>e\<in>set (fst (KVDelete_Run env_ok (Some (delete_cl [''/foo''])))).
      is_store_call e \<and> store_key e = Some ''foo'')"
proof -
  have h1: "ex_args (export_cl [''/foo'']) = [CHR ''/'' # ''foo'']"
    by (simp add: export_cl_def)
  have h2: "dl_args (delete_cl [''/foo'']) = [CHR ''/'' # ''foo'']"
    by (simp add: delete_cl_def)
  have s1: "\<exists>e\<in>set (fst (KVExport_Run env_ok (Some (export_cl [''/foo''])))). is_store_call e"
    by (simp add: KVExport_Run_def KVExport_body_def json_MarshalIndent_def Let_def example_defs)
  have s2: "\<exists>e\<in>set (fst (KVDelete_Run env_ok (Some (delete_cl [''/foo''])))). is_store_call e"
    by (simp add: KVDelete_Run_def KVDelete_body_def KVDelete_dispatch_def flag_value_def
          normalizeKey_def Let_def example_defs)
  from normalizeKey_strips_one_slash
         [of "''foo''" "''/foo''" "export_cl [''/foo'']" env_ok "delete_cl [''/foo'']"]
       h1 h2 s1 s2
  show ?thesis
    by auto
qed






lemma SnapshotRestore_Run_many:
  "length (rs_args cl) > 1 \<Longrightarrow>
     SnapshotRestore_Run env (Some cl) = ([Ui_Error (too_many_arguments (rs_args cl))], 1)"
  by (cases "rs_args cl"; cases "tl (rs_args cl)") (auto simp: SnapshotRestore_Run_def)

lemma SnapshotRestore_Run_single:
  "rs_args cl = [file] \<Longrightarrow>
     SnapshotRestore_Run env (Some cl) = SnapshotRestore_body env cl file"
  by (simp add: SnapshotRestore_Run_def)

lemma SnapshotRestore_Run_cases:
  "SnapshotRestore_Run env parsed = ([Ui_Output_Help], 1) \<or>
   (\<exists>msg. SnapshotRestore_Run env parsed = ([Ui_Error msg], 1)) \<or>
   (\<exists>cl file. SnapshotRestore_Run env parsed = SnapshotRestore_body env cl file)"
proof (cases parsed)
  case None
  then show ?thesis by (simp add: SnapshotRestore_Run_def)
next
  case (Some cl)
  show ?thesis
  proof (cases "rs_args cl")
    case Nil
    with Some show ?thesis by (simp add: SnapshotRestore_Run_def)
  next
    case (Cons path rest)
    show ?thesis
    proof (cases rest)
      case Nil
      with Some Cons have "SnapshotRestore_Run env parsed = SnapshotRestore_body env cl path"
        by (simp add: SnapshotRestore_Run_def)
      then show ?thesis by blast
    next
      case (Cons b more)
      with Some \<open>rs_args cl = path # rest\<close> show ?thesis
        by (simp add: SnapshotRestore_Run_def)
    qed
  qed
qed

lemma SnapshotRestore_body_order:
  assumes "Call_Restore c f \<in> set (fst (SnapshotRestore_body env cl file))"
  shows "os_Open env f = None \<and>
         (\<exists>pre post. fst (SnapshotRestore_body env cl file) = pre @ Call_Restore c f # post \<and>
                      Call_Open f \<in> set pre)"
proof -
  let ?conf = "SnapshotRestore_conf env cl"
  from assms have nc: "NewClient env ?conf = None" and op: "os_Open env file = None"
    and eq: "c = ?conf" "f = file"
    by (auto simp: SnapshotRestore_body_def Let_def split: option.splits)
  have "\<exists>x. fst (SnapshotRestore_body env cl file) =
      [Call_NewClient ?conf, Call_Open file] @ Call_Restore ?conf file # [x, Call_Close file]"
    using nc op by (auto simp: SnapshotRestore_body_def Let_def split: option.splits)
  then obtain x where "fst (SnapshotRestore_body env cl file) =
      [Call_NewClient c, Call_Open f] @ Call_Restore c f # [x, Call_Close f]"
    using eq by auto
  moreover have "Call_Open f \<in> set [Call_NewClient c, Call_Open f]"
    by simp
  ultimately show ?thesis
    using op eq by blast
qed

text \<open>
  C8: snapshot restore with no positional argument, or with two or more, exits 1 with a
  trace that is one error message: no file is opened, no client is constructed and no
  store operation is invoked.
\<close>

theorem SnapshotRestore_wrong_argument_count:
  assumes "length (rs_args cl) \<noteq> 1"
  shows "SnapshotRestore_Run env (Some cl) =
           ([Ui_Error (if rs_args cl = [] then ''Missing FILE argument''
                       else too_many_arguments (rs_args cl))], 1) \<and>
         list_all (\<lambda>e. \<not> is_file_open e \<and> \<not> is_store_call e \<and> \<not> is_client_construction e)
           (fst (SnapshotRestore_Run env (Some cl)))"
proof (cases "rs_args cl = []")
  case True
  then show ?thesis by (simp add: SnapshotRestore_Run_def)
next
  case False
  with assms have "length (rs_args cl) > 1"
    by (cases "rs_args cl") auto
  with False show ?thesis by (simp add: SnapshotRestore_Run_many)
qed

text \<open>
  \<^verbatim>\<open>consul snapshot restore\<close> and \<^verbatim>\<open>consul snapshot restore a.snap b.snap\<close>.
\<close>

theorem SnapshotRestore_wrong_argument_count_witness:
  "length (rs_args (restore_cl [])) \<noteq> 1 \<and>
   SnapshotRestore_Run env_ok (Some (restore_cl [])) = ([Ui_Error ''Missing FILE argument''], 1) \<and>
   length (rs_args (restore_cl [''a.snap'', ''b.snap''])) \<noteq> 1 \<and>
   SnapshotRestore_Run env_ok (Some (restore_cl [''a.snap'', ''b.snap''])) =
     ([Ui_Error ''Too many arguments (expected 1, got 2)''], 1)"
proof -
  have h1: "length (rs_args (restore_cl [])) \<noteq> 1"
    and h2: "length (rs_args (restore_cl [''a.snap'', ''b.snap''])) \<noteq> 1"
    by (simp_all add: restore_cl_def)
  from SnapshotRestore_wrong_argument_count [OF h1, of env_ok]
       SnapshotRestore_wrong_argument_count [OF h2, of env_ok] h1 h2
  show ?thesis
    by (simp add: restore_cl_def too_many_arguments_def decimal.simps digit_char_def)
qed

text \<open>
  C9: when the snapshot file cannot be opened, snapshot restore exits 1 and its trace
  holds no store call, so the restore operation is never invoked. In every run, a restore
  call on a file comes after the call that opened that file, and that call succeeded.
\<close>

theorem SnapshotRestore_open_before_restore:
  "(rs_args cl = [file] \<and> os_Open env file = Some err \<longrightarrow>
      SnapshotRestore_Run env (Some cl) =
        (case NewClient env (SnapshotRestore_conf env cl) of
           Some e \<Rightarrow> ([Call_NewClient (SnapshotRestore_conf env cl), Ui_Error (connect_error e)], 1)
         | None \<Rightarrow>
             ([Call_NewClient (SnapshotRestore_conf env cl), Call_Open file,
               Ui_Error (''Error opening snapshot file: '' @ err)], 1)) \<and>
      snd (SnapshotRestore_Run env (Some cl)) = 1 \<and>
      list_all (\<lambda>e. \<not> is_store_call e) (fst (SnapshotRestore_Run env (Some cl)))) \<and>
   (\<forall>c f. Call_Restore c f \<in> set (fst (SnapshotRestore_Run env parsed)) \<longrightarrow>
      os_Open env f = None \<and>
      (\<exists>pre post. fst (SnapshotRestore_Run env parsed) = pre @ Call_Restore c f # post \<and>
                   Call_Open f \<in> set pre))"
proof (intro conjI allI impI)
  assume h: "rs_args cl = [file] \<and> os_Open env file = Some err"
  then have run: "SnapshotRestore_Run env (Some cl) = SnapshotRestore_body env cl file"
    by (simp add: SnapshotRestore_Run_single)
  show "SnapshotRestore_Run env (Some cl) =
        (case NewClient env (SnapshotRestore_conf env cl) of
           Some e \<Rightarrow> ([Call_NewClient (SnapshotRestore_conf env cl), Ui_Error (connect_error e)], 1)
         | None \<Rightarrow>
             ([Call_NewClient (SnapshotRestore_conf env cl), Call_Open file,
               Ui_Error (''Error opening snapshot file: '' @ err)], 1))"
    unfolding run using h by (simp add: SnapshotRestore_body_def Let_def split: option.splits)
  show "snd (SnapshotRestore_Run env (Some cl)) = 1"
    unfolding run using h by (simp add: SnapshotRestore_body_def Let_def split: option.splits)
  show "list_all (\<lambda>e. \<not> is_store_call e) (fst (SnapshotRestore_Run env (Some cl)))"
    unfolding run using h by (simp add: SnapshotRestore_body_def Let_def split: option.splits)
next
  fix c f
  assume r: "Call_Restore c f \<in> set (fst (SnapshotRestore_Run env parsed))"
  from SnapshotRestore_Run_cases [of env parsed] r
  obtain cl path where run: "SnapshotRestore_Run env parsed = SnapshotRestore_body env cl path"
    by auto
  from r have "Call_Restore c f \<in> set (fst (SnapshotRestore_body env cl path))"
    by (simp add: run)
  from SnapshotRestore_body_order [OF this]
  have "os_Open env f = None \<and>
      (\<exists>pre post. fst (SnapshotRestore_Run env parsed) = pre @ Call_Restore c f # post \<and>
                   Call_Open f \<in> set pre)"
    by (simp add: run)
  then show "os_Open env f = None"
    and "\<exists>pre post. fst (SnapshotRestore_Run env parsed) = pre @ Call_Restore c f # post \<and>
                   Call_Open f \<in> set pre"
    by blast+
qed

text \<open>
  \<^verbatim>\<open>consul snapshot restore backup.snap\<close>, once with a file that cannot be opened and
  once with one that can, in which case the restore call is in the trace.
\<close>

theorem SnapshotRestore_open_before_restore_witness:
  "rs_args (restore_cl [''backup.snap'']) = [''backup.snap''] \<and>
   os_Open env_no_file ''backup.snap'' = Some ''no such file or directory'' \<and>
   SnapshotRestore_Run env_no_file (Some (restore_cl [''backup.snap''])) =
     ([Call_NewClient \<lparr>conf_Address = ''127.0.0.1:8500'', conf_Token = [], conf_Datacenter = []\<rparr>,
       Call_Open ''backup.snap'',
       Ui_Error ''Error opening snapshot file: no such file or directory''], 1) \<and>
   Call_Restore \<lparr>conf_Address = ''127.0.0.1:8500'', conf_Token = [], conf_Datacenter = []\<rparr>
       ''backup.snap''
     \<in> set (fst (SnapshotRestore_Run env_ok (Some (restore_cl [''backup.snap''])))) \<and>
   os_Open env_ok ''backup.snap'' = None"
proof -
  let ?cl = "restore_cl [''backup.snap'']"
  let ?conf = "\<lparr>conf_Address = ''127.0.0.1:8500'', conf_Token = [], conf_Datacenter = []\<rparr>"
  have h1: "rs_args ?cl = [''backup.snap''] \<and>
      os_Open env_no_file ''backup.snap'' = Some ''no such file or directory''"
    by (simp add: restore_cl_def env_no_file_def env_ok_def)
  have c: "SnapshotRestore_conf env_no_file ?cl = ?conf"
    by (simp add: SnapshotRestore_conf_def restore_cl_def env_no_file_def env_ok_def
          flag_value_def)
  have n: "NewClient env_no_file ?conf = None"
    by (simp add: env_no_file_def env_ok_def)
  have r: "Call_Restore ?conf ''backup.snap''
      \<in> set (fst (SnapshotRestore_Run env_ok (Some ?cl)))"
    by (simp add: SnapshotRestore_Run_def SnapshotRestore_body_def SnapshotRestore_conf_def
          restore_cl_def env_ok_def flag_value_def Let_def)
  from SnapshotRestore_open_before_restore
         [of ?cl "''backup.snap''" env_no_file "''no such file or directory''" "Some ?cl"]
       h1
  have a: "SnapshotRestore_Run env_no_file (Some ?cl) =
     ([Call_NewClient ?conf, Call_Open ''backup.snap'',
       Ui_Error ''Error opening snapshot file: no such file or directory''], 1)"
    by (simp add: c n)
  from SnapshotRestore_open_before_restore
         [of ?cl "''backup.snap''" env_ok "''x''" "Some ?cl"] r
  have b: "os_Open env_ok ''backup.snap'' = None"
    by blast
  from a b r h1 show ?thesis by blast
qed

lemma KVExport_body_conf:
  "e \<in> set (fst (KVExport_body env cl a)) \<Longrightarrow> event_conf e = Some c \<Longrightarrow>
     c = KVExport_conf env cl"
  by (auto simp: KVExport_body_def Let_def json_MarshalIndent_def
      split: option.splits sum.splits)

lemma KVExport_Run_conf:
  "e \<in> set (fst (KVExport_Run env (Some cl))) \<Longrightarrow> event_conf e = Some c \<Longrightarrow>
     c = KVExport_conf env cl"
  by (cases "ex_args cl"; cases "tl (ex_args cl)")
     (auto simp: KVExport_Run_def dest: KVExport_body_conf)

lemma KVDelete_dispatch_conf:
  "e \<in> set (fst (KVDelete_dispatch env conf recurse cas mi key wo)) \<Longrightarrow>
     event_conf e = Some c \<Longrightarrow> c = conf"
  by (auto simp: KVDelete_dispatch_def Let_def split: option.splits sum.splits if_splits)

lemma KVDelete_body_conf:
  "e \<in> set (fst (KVDelete_body env cl a)) \<Longrightarrow> event_conf e = Some c \<Longrightarrow>
     c = KVDelete_conf env cl"
  by (auto simp: KVDelete_body_def Let_def
      split: option.splits if_splits dest: KVDelete_dispatch_conf)

lemma KVDelete_Run_conf:
  "e \<in> set (fst (KVDelete_Run env (Some cl))) \<Longrightarrow> event_conf e = Some c \<Longrightarrow>
     c = KVDelete_conf env cl"
  by (cases "dl_args cl"; cases "tl (dl_args cl)")
     (auto simp: KVDelete_Run_def dest: KVDelete_body_conf)

text \<open>
  C10: the export command puts the value of \<^verbatim>\<open>-token\<close> into the client
  configuration whenever that value is not empty, over any token of the default
  configuration; the delete command puts it there only when the token of the default
  configuration is empty, so a token already in the default configuration wins over the
  flag. Every client construction and store call of a run is made with the configuration
  so built.
\<close>

theorem token_precedence:
  "conf_Token (KVExport_conf env ecl) =
     (if flag_value [] (ex_token ecl) \<noteq> [] then flag_value [] (ex_token ecl)
      else conf_Token (DefaultConfig env)) \<and>
   conf_Token (KVDelete_conf env dcl) =
     (if conf_Token (DefaultConfig env) = [] then flag_value [] (dl_token dcl)
      else conf_Token (DefaultConfig env)) \<and>
   (\<forall>e\<in>set (fst (KVExport_Run env (Some ecl))). \<forall>c. event_conf e = Some c \<longrightarrow>
      c = KVExport_conf env ecl) \<and>
   (\<forall>e\<in>set (fst (KVDelete_Run env (Some dcl))). \<forall>c. event_conf e = Some c \<longrightarrow>
      c = KVDelete_conf env dcl)"
proof (intro conjI ballI allI impI)
  show "conf_Token (KVExport_conf env ecl) =
     (if flag_value [] (ex_token ecl) \<noteq> [] then flag_value [] (ex_token ecl)
      else conf_Token (DefaultConfig env))"
    by (simp add: KVExport_conf_def Let_def)
  show "conf_Token (KVDelete_conf env dcl) =
     (if conf_Token (DefaultConfig env) = [] then flag_value [] (dl_token dcl)
      else conf_Token (DefaultConfig env))"
    by (simp add: KVDelete_conf_def Let_def)
next
  fix e c
  assume "e \<in> set (fst (KVExport_Run env (Some ecl)))" and "event_conf e = Some c"
  then show "c = KVExport_conf env ecl"
    by (rule KVExport_Run_conf)
next
  fix e c
  assume "e \<in> set (fst (KVDelete_Run env (Some dcl)))" and "event_conf e = Some c"
  then show "c = KVDelete_conf env dcl"
    by (rule KVDelete_Run_conf)
qed

text \<open>
  With the token \<^verbatim>\<open>from-env\<close> in the default configuration and
  \<^verbatim>\<open>-token=from-flag\<close> on the command line, export connects with \<^verbatim>\<open>from-flag\<close>
  and delete with \<^verbatim>\<open>from-env\<close>.
\<close>

theorem token_precedence_witness:
  "conf_Token (KVExport_conf env_with_token ((export_cl [''foo''])\<lparr>ex_token := Some ''from-flag''\<rparr>))
     = ''from-flag'' \<and>
   conf_Token (KVDelete_conf env_with_token ((delete_cl [''foo''])\<lparr>dl_token := Some ''from-flag''\<rparr>))
     = ''from-env'' \<and>
   (\<exists>e\<in>set (fst (KVExport_Run env_with_token
                   (Some ((export_cl [''foo''])\<lparr>ex_token := Some ''from-flag''\<rparr>)))).
      \<exists>c. event_conf e = Some c \<and> conf_Token c = ''from-flag'') \<and>
   (\<exists>e\<in>set (fst (KVDelete_Run env_with_token
                   (Some ((delete_cl [''foo''])\<lparr>dl_token := Some ''from-flag''\<rparr>)))).
      \<exists>c. event_conf e = Some c \<and> conf_Token c = ''from-env'')"
proof -
  let ?ecl = "(export_cl [''foo''])\<lparr>ex_token := Some ''from-flag''\<rparr>"
  let ?dcl = "(delete_cl [''foo''])\<lparr>dl_token := Some ''from-flag''\<rparr>"
  note t = token_precedence [of env_with_token ?ecl ?dcl]
  have d: "conf_Token (DefaultConfig env_with_token) = ''from-env''"
    by (simp add: env_with_token_def env_ok_def)
  have f: "flag_value [] (ex_token ?ecl) = ''from-flag''"
    "flag_value [] (dl_token ?dcl) = ''from-flag''"
    by (simp_all add: export_cl_def delete_cl_def flag_value_def)
  from t have te: "conf_Token (KVExport_conf env_with_token ?ecl) = ''from-flag''"
    and td: "conf_Token (KVDelete_conf env_with_token ?dcl) = ''from-env''"
    by (simp_all add: d export_cl_def delete_cl_def flag_value_def)
  have e1: "Call_NewClient (KVExport_conf env_with_token ?ecl)
      \<in> set (fst (KVExport_Run env_with_token (Some ?ecl)))"
    by (simp add: KVExport_Run_def KVExport_body_def export_cl_def env_with_token_def
          env_ok_def json_MarshalIndent_def Let_def)
  have e2: "Call_NewClient (KVDelete_conf env_with_token ?dcl)
      \<in> set (fst (KVDelete_Run env_with_token (Some ?dcl)))"
    by (simp add: KVDelete_Run_def KVDelete_body_def delete_cl_def env_with_token_def
          env_ok_def flag_value_def normalizeKey_def Let_def)
  have x1: "\<exists>e\<in>set (fst (KVExport_Run env_with_token (Some ?ecl))).
      \<exists>c. event_conf e = Some c \<and> conf_Token c = ''from-flag''"
    using e1 te by (intro bexI [OF _ e1]) simp
  have x2: "\<exists>e\<in>set (fst (KVDelete_Run env_with_token (Some ?dcl))).
      \<exists>c. event_conf e = Some c \<and> conf_Token c = ''from-env''"
    using e2 td by (intro bexI [OF _ e2]) simp
  from te td x1 x2 show ?thesis by blast
qed

end
